theory Spec2Isabelle
  imports Main "HOL-Library.AList"
begin

section \<open>Python values\<close>

text \<open>
  The documents handed to \<open>sync\<close> and \<open>bulk_sync\<close> are in-memory JSON-like Python 2
  values. \<open>type(value)\<close> is modelled by \<open>type_of\<close>; \<open>int\<close> and \<open>long\<close>, \<open>str\<close> and
  \<open>unicode\<close>, \<open>list\<close> and \<open>tuple\<close> are distinct types, as they are in Python 2. A finite
  float is a mantissa and a binary exponent. A dict is an association list read with
  \<open>map_of\<close> and written with \<open>AList.update\<close>; its keys are strings.

  A datetime is its wall-clock reading in minutes since the epoch together with the
  UTC offset (in minutes) of its \<open>tzinfo\<close>, \<open>None\<close> for a naive value.
\<close>

datatype pytype = T_NoneType | T_bool | T_int | T_long | T_float | T_str | T_unicode
  | T_list | T_tuple | T_dict | T_datetime | T_date | T_time

record datetime =
  wall :: int
  tzinfo :: "int option"

datatype val = VNone | VBool bool | VInt int | VLong int | VFloat int int
  | VStr string | VUnicode string | VList "val list" | VTuple "val list"
  | VDict "(string \<times> val) list" | VDatetime datetime | VDate int | VTime int

type_synonym pydict = "(string \<times> val) list"

datatype error = KeyError string | TypeError | ValueError | IndexError
  | AttributeError string | SyntaxError string | IntegrityError | OutOfFuel

fun type_of :: "val \<Rightarrow> pytype" where
  "type_of VNone = T_NoneType"
| "type_of (VBool b) = T_bool"
| "type_of (VInt n) = T_int"
| "type_of (VLong n) = T_long"
| "type_of (VFloat m e) = T_float"
| "type_of (VStr s) = T_str"
| "type_of (VUnicode s) = T_unicode"
| "type_of (VList xs) = T_list"
| "type_of (VTuple xs) = T_tuple"
| "type_of (VDict d) = T_dict"
| "type_of (VDatetime d) = T_datetime"
| "type_of (VDate d) = T_date"
| "type_of (VTime t) = T_time"

text \<open>\<open>type(value) in {int, long}\<close>\<close>

definition is_int_type :: "val \<Rightarrow> bool" where
  "is_int_type v = (type_of v \<in> {T_int, T_long})"

text \<open>
  \<open>long(x)\<close>. Reading a string as a number is Python's own parser, taken as the
  parameter \<open>P\<close> (\<open>None\<close> where \<open>long\<close> raises ValueError). A float is truncated
  towards zero.
\<close>

fun pylong :: "(string \<Rightarrow> int option) \<Rightarrow> val \<Rightarrow> error + int" where
  "pylong P (VInt n) = Inr n"
| "pylong P (VLong n) = Inr n"
| "pylong P (VBool b) = Inr (if b then 1 else 0)"
| "pylong P (VFloat m e) =
     Inr (if 0 \<le> e then m * 2 ^ nat e else sgn m * (\<bar>m\<bar> div 2 ^ nat (- e)))"
| "pylong P (VStr s) = (case P s of None \<Rightarrow> Inl ValueError | Some n \<Rightarrow> Inr n)"
| "pylong P (VUnicode s) = (case P s of None \<Rightarrow> Inl ValueError | Some n \<Rightarrow> Inr n)"
| "pylong P v = Inl TypeError"

text \<open>
  \<open>AttrDict(value)\<close>, that is \<open>dict(value)\<close>: a copy of a dict, or the dict of a sequence
  of two-item sequences. The keys of a row are strings here, so an item whose key is not
  a string is reported as TypeError, and an item that is not a two-item list or tuple as
  ValueError (Python also accepts two-character strings as items).
\<close>

fun dict_item :: "val \<Rightarrow> error + (string \<times> val)" where
  "dict_item (VList [VStr k, v]) = Inr (k, v)"
| "dict_item (VList [VUnicode k, v]) = Inr (k, v)"
| "dict_item (VList [k, v]) = Inl TypeError"
| "dict_item (VTuple [VStr k, v]) = Inr (k, v)"
| "dict_item (VTuple [VUnicode k, v]) = Inr (k, v)"
| "dict_item (VTuple [k, v]) = Inl TypeError"
| "dict_item (VList xs) = Inl ValueError"
| "dict_item (VTuple xs) = Inl ValueError"
| "dict_item (VStr s) = Inl ValueError"
| "dict_item (VUnicode s) = Inl ValueError"
| "dict_item (VDict d) = Inl ValueError"
| "dict_item v = Inl TypeError"

fun dict_of_items :: "val list \<Rightarrow> pydict \<Rightarrow> error + pydict" where
  "dict_of_items [] d = Inr d"
| "dict_of_items (x # xs) d =
     (case dict_item x of Inl e \<Rightarrow> Inl e
      | Inr (k, v) \<Rightarrow> dict_of_items xs (AList.update k v d))"

fun AttrDict :: "val \<Rightarrow> error + pydict" where
  "AttrDict (VDict d) = Inr d"
| "AttrDict (VList xs) = dict_of_items xs []"
| "AttrDict (VTuple xs) = dict_of_items xs []"
| "AttrDict (VStr s) = (if s = [] then Inr [] else Inl ValueError)"
| "AttrDict (VUnicode s) = (if s = [] then Inr [] else Inl ValueError)"
| "AttrDict v = Inl TypeError"

text \<open>
  \<open>datetime.astimezone(tz)\<close>, \<open>.date()\<close> and \<open>.time()\<close>. The zone is a function from the
  UTC instant to the offset in force then. \<open>astimezone\<close> raises ValueError on a naive
  value.
\<close>

definition astimezone :: "(int \<Rightarrow> int) \<Rightarrow> datetime \<Rightarrow> error + datetime" where
  "astimezone tz d =
     (case tzinfo d of None \<Rightarrow> Inl ValueError
      | Some off \<Rightarrow>
          let utc = wall d - off
          in Inr \<lparr>wall = utc + tz utc, tzinfo = Some (tz utc)\<rparr>)"

definition date_of :: "datetime \<Rightarrow> int" where
  "date_of d = wall d div 1440"

definition time_of :: "datetime \<Rightarrow> int" where
  "time_of d = wall d mod 1440"

text \<open>
  What row construction takes from outside the repository: the two date parsers
  (\<open>datetime.datetime.strptime\<close> and \<open>dateutil.parser.parse\<close>, each failing with an
  error or returning a datetime), the local time zone \<open>tzlocal()\<close>, and Python's reading
  of a string as a number.
\<close>

record pyenv =
  strptime :: "val \<Rightarrow> string \<Rightarrow> error + datetime"
  dateutil_parse :: "val \<Rightarrow> pydict \<Rightarrow> error + datetime"
  tzlocal :: "int \<Rightarrow> int"
  long_of_string :: "string \<Rightarrow> int option"

section \<open>Field descriptors, traversal contexts, type definitions\<close>

text \<open>
  \<open>Context\<close> keeps the fields a computed field can read: the document, the batch, the
  \<open>partial\<close> flag, the batch index, the documents of the ancestors and the root document
  (\<open>None\<close> for a batch root). \<open>data = None\<close> of a batch context, which nothing reads
  before the first document replaces it, is the empty dict, and \<open>seq = None\<close> of a
  single-document context the empty list. The object references \<open>parent_context\<close>, \<open>parent_contexts\<close>,
  \<open>root_context\<close> and \<open>type\<close> are not kept. In a batch the source overwrites
  \<open>context.index\<close> and \<open>context.data\<close> before each document; here each document gets the
  context with these two fields updated.
\<close>

record Context =
  data :: pydict
  seq :: "val list"
  partial :: bool
  index :: int
  parents :: "pydict list"
  root :: "pydict option"

text \<open>A computed field takes the row so far, or the row and the context.\<close>

datatype compute_fn = Compute1 "pydict \<Rightarrow> val" | Compute2 "pydict \<Rightarrow> Context \<Rightarrow> val"

record jsonfield =
  fieldname :: string
  column_name :: string
  type :: string
  date_format :: "string option"
  dateutil_kwargs :: "pydict option"
  compute :: "compute_fn option"

text \<open>\<open>JSONField(fieldname, type)\<close> with no keyword arguments.\<close>

definition JSONField :: "string \<Rightarrow> string \<Rightarrow> jsonfield" where
  "JSONField fn ty = \<lparr>fieldname = fn, column_name = fn, type = ty, date_format = None,
     dateutil_kwargs = None, compute = None\<rparr>"

record jsontype =
  name :: string
  table_name :: string
  remove_missing_fields :: bool
  type_fields :: "jsonfield list"

text \<open>\<open>Context(parent_context, type, data=..., seq=..., partial=...)\<close>\<close>

definition new_context ::
  "Context option \<Rightarrow> pydict option \<Rightarrow> val list \<Rightarrow> bool \<Rightarrow> Context" where
  "new_context parent_context d s p =
     (let dat = (case d of None \<Rightarrow> [] | Some x \<Rightarrow> x) in
      case parent_context of
        None \<Rightarrow> \<lparr>data = dat, seq = s, partial = p, index = - 1, parents = [], root = d\<rparr>
      | Some pc \<Rightarrow> \<lparr>data = dat, seq = s, partial = p, index = - 1,
          parents = data pc # parents pc, root = root pc\<rparr>)"

text \<open>
  \<open>re.match(r'^(reference|list:reference) (\w+)$', type)\<close>: the two groups of the match.
  \<open>$\<close> also matches before a final newline.
\<close>

definition word_char :: "char \<Rightarrow> bool" where
  "word_char c = (let n = (of_char c :: nat) in
     (48 \<le> n \<and> n \<le> 57) \<or> (65 \<le> n \<and> n \<le> 90) \<or> (97 \<le> n \<and> n \<le> 122) \<or> n = 95)"

definition ref_match :: "string \<Rightarrow> (string \<times> string) option" where
  "ref_match s =
     (let s' = (if s \<noteq> [] \<and> last s = CHR 0x0A then butlast s else s) in
      if take 10 s' = ''reference '' \<and> drop 10 s' \<noteq> [] \<and> list_all word_char (drop 10 s')
      then Some (''reference'', drop 10 s')
      else if take 15 s' = ''list:reference '' \<and> drop 15 s' \<noteq> []
          \<and> list_all word_char (drop 15 s')
      then Some (''list:reference'', drop 15 s')
      else None)"

text \<open>
  \<open>registry[name]\<close>: the first registered type of that name, AttributeError when there is
  none. (The registry's own attributes \<open>types\<close>, \<open>define_type\<close>, ... are found first by
  Python; a type is not expected to bear such a name.)
\<close>

definition registry_getitem :: "jsontype list \<Rightarrow> string \<Rightarrow> error + jsontype" where
  "registry_getitem reg n =
     (case find (\<lambda>t. name t = n) reg of None \<Rightarrow> Inl (AttributeError n) | Some t \<Rightarrow> Inr t)"

section \<open>The storage engine\<close>

text \<open>
  The relational store is the collaborator of the repository (web2py's DAL), modelled at
  the contract the code uses. A table has typed columns, the first being \<open>id\<close>, and rows
  keyed by an integer identifier; a stored row holds the columns that were written, and a
  column never written reads as \<open>None\<close>. The catalog table \<open>json_type_registry\<close> holds
  rows \<open>(type, fieldname, db_type)\<close>. Every write call is appended to \<open>calls\<close>.
\<close>

datatype dbcall = Define_table string "(string \<times> string) list"
  | Registry_bulk_insert "(string \<times> string \<times> string) list"
  | Update_record string int pydict
  | Insert string pydict
  | Bulk_insert string "pydict list"

record table =
  columns :: "(string \<times> string) list"
  rows :: "(int \<times> pydict) list"

record db =
  tables :: "(string \<times> table) list"
  json_type_registry :: "(string \<times> string \<times> string) list"
  calls :: "dbcall list"

text \<open>\<open>db[table_name]\<close>\<close>

definition db_getitem :: "db \<Rightarrow> string \<Rightarrow> error + table" where
  "db_getitem d n =
     (case map_of (tables d) n of None \<Rightarrow> Inl (AttributeError n) | Some tb \<Rightarrow> Inr tb)"

text \<open>\<open>table.fields\<close>: the column names.\<close>

definition table_fields :: "table \<Rightarrow> string list" where
  "table_fields tb = map fst (columns tb)"

text \<open>
  \<open>table(key)\<close>: the row of that identifier with every column of the table, or nothing.
  A key that is not an integer finds nothing.
\<close>

definition select_row :: "table \<Rightarrow> int \<Rightarrow> pydict option" where
  "select_row tb k =
     (case map_of (rows tb) k of
        None \<Rightarrow> None
      | Some r \<Rightarrow> Some (map (\<lambda>c. (c, if c = ''id'' then VLong k
                           else (case map_of r c of None \<Rightarrow> VNone | Some v \<Rightarrow> v)))
                    (table_fields tb)))"

fun key_of :: "val \<Rightarrow> int option" where
  "key_of (VInt k) = Some k"
| "key_of (VLong k) = Some k"
| "key_of v = None"

definition table_call :: "table \<Rightarrow> val \<Rightarrow> (int \<times> pydict) option" where
  "table_call tb key =
     (case key_of key of
        None \<Rightarrow> None
      | Some k \<Rightarrow> (case select_row tb k of None \<Rightarrow> None | Some r \<Rightarrow> Some (k, r)))"

text \<open>
  \<open>db_row.update_record(**payload)\<close>: writes the entries of the payload that are columns
  of the table other than \<open>id\<close>; the other columns of the row keep their values.
\<close>

definition write_columns :: "table \<Rightarrow> pydict \<Rightarrow> pydict \<Rightarrow> pydict" where
  "write_columns tb payload r =
     fold (\<lambda>(c, v) r'. if c \<in> set (table_fields tb) \<and> c \<noteq> ''id''
                        then AList.update c v r' else r') payload r"

definition update_record :: "db \<Rightarrow> string \<Rightarrow> table \<Rightarrow> int \<Rightarrow> pydict \<Rightarrow> db" where
  "update_record d n tb k payload =
     (let r = (case map_of (rows tb) k of None \<Rightarrow> [] | Some r \<Rightarrow> r);
          tb' = tb\<lparr>rows := AList.update k (write_columns tb payload r) (rows tb)\<rparr>
      in d\<lparr>tables := AList.update n tb' (tables d),
            calls := calls d @ [Update_record n k payload]\<rparr>)"

text \<open>
  Storing one new row: a key that is not a column is refused (SyntaxError), an integer
  \<open>id\<close> is the row's identifier and must be free (IntegrityError), a missing or null
  \<open>id\<close> gets the next identifier.
\<close>

definition next_id :: "table \<Rightarrow> int" where
  "next_id tb = fold max (map fst (rows tb)) 0 + 1"

definition store_row :: "table \<Rightarrow> pydict \<Rightarrow> error + table" where
  "store_row tb r =
     (case find (\<lambda>c. c \<notin> set (table_fields tb)) (map fst r) of
        Some c \<Rightarrow> Inl (SyntaxError c)
      | None \<Rightarrow>
         (let r' = write_columns tb r [] in
          case map_of r ''id'' of
            None \<Rightarrow> Inr (tb\<lparr>rows := rows tb @ [(next_id tb, r')]\<rparr>)
          | Some VNone \<Rightarrow> Inr (tb\<lparr>rows := rows tb @ [(next_id tb, r')]\<rparr>)
          | Some v \<Rightarrow>
             (case key_of v of
                None \<Rightarrow> Inl ValueError
              | Some k \<Rightarrow> if k \<in> set (map fst (rows tb)) then Inl IntegrityError
                          else Inr (tb\<lparr>rows := rows tb @ [(k, r')]\<rparr>))))"

fun store_rows :: "table \<Rightarrow> pydict list \<Rightarrow> error + table" where
  "store_rows tb [] = Inr tb"
| "store_rows tb (r # rs) =
     (case store_row tb r of Inl e \<Rightarrow> Inl e | Inr tb' \<Rightarrow> store_rows tb' rs)"

text \<open>\<open>db[table_name].insert(**row)\<close>\<close>

definition table_insert :: "db \<Rightarrow> string \<Rightarrow> pydict \<Rightarrow> db \<times> (error + unit)" where
  "table_insert d n r =
     (let d' = d\<lparr>calls := calls d @ [Insert n r]\<rparr> in
      case db_getitem d n of
        Inl e \<Rightarrow> (d, Inl e)
      | Inr tb \<Rightarrow>
         (case store_row tb r of
            Inl e \<Rightarrow> (d', Inl e)
          | Inr tb' \<Rightarrow> (d'\<lparr>tables := AList.update n tb' (tables d')\<rparr>, Inr ())))"

text \<open>\<open>db[table_name].bulk_insert(rows)\<close>: one call, the rows stored in order.\<close>

definition table_bulk_insert :: "db \<Rightarrow> string \<Rightarrow> pydict list \<Rightarrow> db \<times> (error + unit)" where
  "table_bulk_insert d n rs =
     (let d' = d\<lparr>calls := calls d @ [Bulk_insert n rs]\<rparr> in
      case db_getitem d n of
        Inl e \<Rightarrow> (d, Inl e)
      | Inr tb \<Rightarrow>
         (case store_rows tb rs of
            Inl e \<Rightarrow> (d', Inl e)
          | Inr tb' \<Rightarrow> (d'\<lparr>tables := AList.update n tb' (tables d')\<rparr>, Inr ())))"

section \<open>The type registry\<close>

text \<open>\<open>{f.fieldname: f for f in type.fields}\<close>\<close>

definition declared_by_name :: "jsonfield list \<Rightarrow> (string \<times> jsonfield) list" where
  "declared_by_name fs = fold (\<lambda>f acc. AList.update (fieldname f) f acc) fs []"

definition fields_by_name :: "db \<Rightarrow> jsontype \<Rightarrow> (string \<times> jsonfield) list" where
  "fields_by_name d t =
     fold (\<lambda>(ty, fn, dbt) acc.
             if fn \<in> set (map fst acc) then acc
             else AList.update fn (JSONField fn dbt) acc)
       (filter (\<lambda>(ty, fn, dbt). ty = name t) (json_type_registry d))
       (declared_by_name (type_fields t))"

text \<open>
  \<open>JSONField.field(registry)\<close>: the column and its storage type, a reference type naming
  the table of the referenced type.
\<close>

definition field :: "jsontype list \<Rightarrow> jsonfield \<Rightarrow> error + (string \<times> string)" where
  "field reg f =
     (case ref_match (type f) of
        None \<Rightarrow> Inr (column_name f, type f)
      | Some (kind, n) \<Rightarrow>
         (case registry_getitem reg n of
            Inl e \<Rightarrow> Inl e
          | Inr ref_type \<Rightarrow> Inr (column_name f, kind @ '' '' @ table_name ref_type)))"

fun collect :: "('a \<Rightarrow> error + 'b) \<Rightarrow> 'a list \<Rightarrow> error + 'b list" where
  "collect g [] = Inr []"
| "collect g (x # xs) =
     (case g x of
        Inl e \<Rightarrow> Inl e
      | Inr y \<Rightarrow> (case collect g xs of Inl e \<Rightarrow> Inl e | Inr ys \<Rightarrow> Inr (y # ys)))"

text \<open>
  \<open>db.define_table(type.table_name, *fields, migrate=True, redefine=True)\<close>: the table
  gets the \<open>id\<close> column and the given ones; its rows are kept.
\<close>

definition redefine_table :: "db \<Rightarrow> jsontype list \<Rightarrow> jsontype \<Rightarrow> db \<times> (error + unit)" where
  "redefine_table d reg t =
     (case collect (field reg) (map snd (fields_by_name d t)) of
        Inl e \<Rightarrow> (d, Inl e)
      | Inr cols \<Rightarrow>
         (let old = (case map_of (tables d) (table_name t) of None \<Rightarrow> [] | Some tb \<Rightarrow> rows tb);
              tb' = \<lparr>columns = (''id'', ''id'') # cols, rows = old\<rparr>
          in (d\<lparr>tables := AList.update (table_name t) tb' (tables d),
                 calls := calls d @ [Define_table (table_name t) cols]\<rparr>, Inr ())))"

definition add_fields_to_type ::
  "db \<Rightarrow> jsontype list \<Rightarrow> jsontype \<Rightarrow> (string \<times> string) list \<Rightarrow> db \<times> (error + unit)" where
  "add_fields_to_type d reg t fs =
     (if fs = [] then (d, Inr ())
      else
        (let rws = map (\<lambda>(fn, db_type). (name t, fn, db_type)) fs;
             d' = d\<lparr>json_type_registry := json_type_registry d @ rws,
                    calls := calls d @ [Registry_bulk_insert rws]\<rparr>
         in redefine_table d' reg t))"

section \<open>Schema discovery\<close>

text \<open>
  \<open>_find_extra_types\<close>: \<open>missing_fields\<close> maps a field name to the set of the types seen
  for it.
\<close>

definition find_extra_types ::
  "(string \<times> jsonfield) list \<Rightarrow> (string \<times> pytype set) list \<Rightarrow> pydict
     \<Rightarrow> (string \<times> pytype set) list" where
  "find_extra_types current_fields missing_fields obj =
     fold (\<lambda>fn missing.
             if fn \<in> set (map fst current_fields) then missing
             else if fn = ''id'' then missing
             else (case map_of obj fn of
                     None \<Rightarrow> missing
                   | Some v \<Rightarrow>
                      if v = VNone then missing
                      else AList.update fn
                             (insert (type_of v)
                                (case map_of missing fn of None \<Rightarrow> {} | Some s \<Rightarrow> s))
                             missing))
       (map fst obj) missing_fields"

text \<open>
  In a batch the elements are scanned as they come, before \<open>AttrDict\<close> is applied. An
  empty sequence or string has no key to scan; any other element that is not a dict is
  reported as TypeError (its keys would not be strings).
\<close>

fun find_extra_types_obj ::
  "(string \<times> jsonfield) list \<Rightarrow> (string \<times> pytype set) list \<Rightarrow> val
     \<Rightarrow> error + (string \<times> pytype set) list" where
  "find_extra_types_obj cur missing (VDict obj) = Inr (find_extra_types cur missing obj)"
| "find_extra_types_obj cur missing (VList xs) = (if xs = [] then Inr missing else Inl TypeError)"
| "find_extra_types_obj cur missing (VTuple xs) = (if xs = [] then Inr missing else Inl TypeError)"
| "find_extra_types_obj cur missing (VStr s) = (if s = [] then Inr missing else Inl TypeError)"
| "find_extra_types_obj cur missing (VUnicode s) = (if s = [] then Inr missing else Inl TypeError)"
| "find_extra_types_obj cur missing v = Inl TypeError"

fun find_extra_types_seq ::
  "(string \<times> jsonfield) list \<Rightarrow> (string \<times> pytype set) list \<Rightarrow> val list
     \<Rightarrow> error + (string \<times> pytype set) list" where
  "find_extra_types_seq cur missing [] = Inr missing"
| "find_extra_types_seq cur missing (obj # objs) =
     (case find_extra_types_obj cur missing obj of
        Inl e \<Rightarrow> Inl e
      | Inr missing' \<Rightarrow> find_extra_types_seq cur missing' objs)"

text \<open>The storage type \<open>_redefine_with_missing_fields\<close> gives one missing field.\<close>

definition db_type_of :: "pytype set \<Rightarrow> string" where
  "db_type_of types =
     (let db_type =
        (if card types = 1 then
           (let ty = the_elem types in
            if ty \<in> {T_int, T_long} then Some ''integer''
            else if ty \<in> {T_dict, T_list, T_tuple} then Some ''json''
            else if ty = T_bool then Some ''boolean''
            else if ty = T_float then Some ''double''
            else None)
         else None)
      in case db_type of None \<Rightarrow> ''string'' | Some s \<Rightarrow> s)"

definition redefine_with_missing_fields ::
  "db \<Rightarrow> jsontype list \<Rightarrow> jsontype \<Rightarrow> (string \<times> pytype set) list \<Rightarrow> db \<times> (error + unit)" where
  "redefine_with_missing_fields d reg t missing_fields =
     add_fields_to_type d reg t (map (\<lambda>(fn, types). (fn, db_type_of types)) missing_fields)"

section \<open>Row construction\<close>

text \<open>
  A nested document is synced by the referenced type's \<open>_sync\<close>, a list of them by its
  \<open>_bulk_sync\<close>. Row construction takes the two as the pair \<open>ch\<close>.
\<close>

type_synonym sync_fn = "db \<Rightarrow> jsontype \<Rightarrow> Context \<Rightarrow> db \<times> (error + pydict)"

type_synonym bulk_fn = "db \<Rightarrow> jsontype \<Rightarrow> Context \<Rightarrow> db \<times> (error + pydict list)"

text \<open>
  The first loop of \<open>_create_row_dict\<close>: the keys of the document that are not declared
  fields.
\<close>

fun passthrough :: "db \<Rightarrow> jsontype \<Rightarrow> pydict \<Rightarrow> string list \<Rightarrow> pydict \<Rightarrow> error + pydict" where
  "passthrough d t dat [] row = Inr row"
| "passthrough d t dat (fn # fns) row =
     (if fn \<in> set (map fieldname (type_fields t)) then passthrough d t dat fns row
      else
        (case map_of dat fn of
           None \<Rightarrow> Inl (KeyError fn)
         | Some v \<Rightarrow>
            if v \<noteq> VNone then passthrough d t dat fns (AList.update fn v row)
            else
              (case db_getitem d (table_name t) of
                 Inl e \<Rightarrow> Inl e
               | Inr tb \<Rightarrow>
                  if fn \<in> set (table_fields tb)
                  then passthrough d t dat fns (AList.update fn v row)
                  else passthrough d t dat fns row)))"

text \<open>
  The temporal branch. \<open>value.astimezone(tzlocal())\<close> is evaluated and its result is not
  assigned: the value that goes on is the parsed one.
\<close>

definition parse_temporal :: "pyenv \<Rightarrow> jsonfield \<Rightarrow> val \<Rightarrow> error + val" where
  "parse_temporal E f v =
     (if type f \<in> {''datetime'', ''date'', ''time''} then
        (case (case date_format f of
                 None \<Rightarrow> dateutil_parse E v
                           (case dateutil_kwargs f of None \<Rightarrow> [] | Some kw \<Rightarrow> kw)
               | Some fmt \<Rightarrow>
                  if fmt \<noteq> [] then strptime E v fmt
                  else dateutil_parse E v
                         (case dateutil_kwargs f of None \<Rightarrow> [] | Some kw \<Rightarrow> kw)) of
           Inl e \<Rightarrow> Inl e
         | Inr parsed \<Rightarrow>
            (case (if tzinfo parsed \<noteq> None then astimezone (tzlocal E) parsed
                   else Inr parsed) of
               Inl e \<Rightarrow> Inl e
             | Inr unused \<Rightarrow>
                Inr (if type f = ''date'' then VDate (date_of parsed)
                     else if type f = ''time'' then VTime (time_of parsed)
                     else VDatetime parsed)))
      else Inr v)"

text \<open>\<open>long(child['id'])\<close>\<close>

definition child_id :: "pyenv \<Rightarrow> pydict \<Rightarrow> error + val" where
  "child_id E child =
     (case map_of child ''id'' of
        None \<Rightarrow> Inl (KeyError ''id'')
      | Some i \<Rightarrow>
         (case pylong (long_of_string E) i of Inl e \<Rightarrow> Inl e | Inr k \<Rightarrow> Inr (VLong k)))"

text \<open>The \<open>reference\<close> branch.\<close>

definition resolve_reference ::
  "pyenv \<Rightarrow> sync_fn \<Rightarrow> Context \<Rightarrow> jsontype \<Rightarrow> db \<Rightarrow> val \<Rightarrow> db \<times> (error + val)" where
  "resolve_reference E S ctx ref_type d v =
     (if is_int_type v then (d, Inr v)
      else
        (case AttrDict v of
           Inl e \<Rightarrow> (d, Inl e)
         | Inr dat \<Rightarrow>
            (case S d ref_type (new_context (Some ctx) (Some dat) [] (partial ctx)) of
               (d', Inl e) \<Rightarrow> (d', Inl e)
             | (d', Inr child) \<Rightarrow> (d', child_id E child))))"

text \<open>
  The \<open>list:reference\<close> branch: the loop that sorts the items into \<open>ids\<close>, \<open>seq\<close> and
  \<open>indexes\<close>, and the loop that writes the identifiers of the children into \<open>ids\<close>.
\<close>

fun sort_items ::
  "(nat \<times> val) list \<Rightarrow> val list \<times> val list \<times> nat list \<Rightarrow> val list \<times> val list \<times> nat list" where
  "sort_items [] acc = acc"
| "sort_items ((i, item) # rest) (ids, sq, indexes) =
     (if is_int_type item then sort_items rest (ids[i := item], sq, indexes)
      else sort_items rest (ids, sq @ [item], indexes @ [i]))"

fun write_child_ids :: "pyenv \<Rightarrow> val list \<Rightarrow> nat list \<Rightarrow> pydict list \<Rightarrow> error + val list" where
  "write_child_ids E ids indexes [] = Inr ids"
| "write_child_ids E ids [] (child # children) =
     (case child_id E child of Inl e \<Rightarrow> Inl e | Inr k \<Rightarrow> Inl IndexError)"
| "write_child_ids E ids (i # indexes) (child # children) =
     (case child_id E child of
        Inl e \<Rightarrow> Inl e
      | Inr k \<Rightarrow> if i < length ids then write_child_ids E (ids[i := k]) indexes children
                  else Inl IndexError)"

definition resolve_list_reference ::
  "pyenv \<Rightarrow> bulk_fn \<Rightarrow> Context \<Rightarrow> jsontype \<Rightarrow> db \<Rightarrow> val \<Rightarrow> db \<times> (error + val)" where
  "resolve_list_reference E B ctx ref_type d v =
     (let items = (case v of VList xs \<Rightarrow> xs | VTuple xs \<Rightarrow> xs | _ \<Rightarrow> [v]);
          (ids, sq, indexes) =
             sort_items (zip [0..<length items] items) (replicate (length items) VNone, [], [])
      in if sq \<noteq> [] then
           (case B d ref_type (new_context (Some ctx) None sq (partial ctx)) of
              (d', Inl e) \<Rightarrow> (d', Inl e)
            | (d', Inr children) \<Rightarrow>
               (d', case write_child_ids E ids indexes children of
                      Inl e \<Rightarrow> Inl e
                    | Inr ids' \<Rightarrow> Inr (VList ids')))
         else (d, Inr (VList ids)))"

text \<open>The body of the loop over the declared fields.\<close>

definition field_step ::
  "pyenv \<Rightarrow> sync_fn \<times> bulk_fn \<Rightarrow> jsontype list \<Rightarrow> Context \<Rightarrow> jsonfield \<Rightarrow> db \<Rightarrow> pydict
     \<Rightarrow> db \<times> (error + pydict)" where
  "field_step E ch reg ctx f d row =
     (case compute f of
        Some (Compute1 g) \<Rightarrow> (d, Inr (AList.update (column_name f) (g row) row))
      | Some (Compute2 g) \<Rightarrow> (d, Inr (AList.update (column_name f) (g row ctx) row))
      | None \<Rightarrow>
         if partial ctx \<and> fieldname f \<notin> set (map fst (data ctx)) then (d, Inr row)
         else
           (let v = (case map_of (data ctx) (fieldname f) of None \<Rightarrow> VNone | Some x \<Rightarrow> x) in
            if v = VNone then (d, Inr (AList.update (column_name f) VNone row))
            else
              (case parse_temporal E f v of
                 Inl e \<Rightarrow> (d, Inl e)
               | Inr v1 \<Rightarrow>
                  (case ref_match (type f) of
                     None \<Rightarrow> (d, Inr (AList.update (column_name f) v1 row))
                   | Some (kind, n) \<Rightarrow>
                      (case registry_getitem reg n of
                         Inl e \<Rightarrow> (d, Inl e)
                       | Inr ref_type \<Rightarrow>
                          (case (if kind = ''reference''
                                 then resolve_reference E (fst ch) ctx ref_type d v1
                                 else resolve_list_reference E (snd ch) ctx ref_type d v1) of
                             (d', Inl e) \<Rightarrow> (d', Inl e)
                           | (d', Inr v2) \<Rightarrow>
                              (d', Inr (AList.update (column_name f) v2 row))))))))"

fun field_loop ::
  "pyenv \<Rightarrow> sync_fn \<times> bulk_fn \<Rightarrow> jsontype list \<Rightarrow> Context \<Rightarrow> jsonfield list \<Rightarrow> db \<Rightarrow> pydict
     \<Rightarrow> db \<times> (error + pydict)" where
  "field_loop E ch reg ctx [] d row = (d, Inr row)"
| "field_loop E ch reg ctx (f # fs) d row =
     (case field_step E ch reg ctx f d row of
        (d', Inl e) \<Rightarrow> (d', Inl e)
      | (d', Inr row') \<Rightarrow> field_loop E ch reg ctx fs d' row')"

definition create_row_dict ::
  "pyenv \<Rightarrow> sync_fn \<times> bulk_fn \<Rightarrow> jsontype list \<Rightarrow> db \<Rightarrow> jsontype \<Rightarrow> Context
     \<Rightarrow> db \<times> (error + pydict)" where
  "create_row_dict E ch reg d t ctx =
     (case passthrough d t (data ctx) (map fst (data ctx)) [] of
        Inl e \<Rightarrow> (d, Inl e)
      | Inr row \<Rightarrow> field_loop E ch reg ctx (type_fields t) d row)"

section \<open>Upsert\<close>

text \<open>
  The loop of \<open>_update_row\<close> over the columns of the stored row. \<open>new_row_dict\<close> is
  \<open>None\<close> until the first missing column, then a copy of \<open>row_dict\<close> that takes the
  nulls; the dict the caller passed is not written.
\<close>

definition null_fill :: "pydict \<Rightarrow> string list \<Rightarrow> pydict option" where
  "null_fill row_dict cols =
     fold (\<lambda>column new_row_dict.
             if column \<notin> set (map fst row_dict)
             then Some (AList.update column VNone
                          (case new_row_dict of None \<Rightarrow> row_dict | Some r \<Rightarrow> r))
             else new_row_dict)
       cols None"

definition update_row :: "db \<Rightarrow> jsontype \<Rightarrow> pydict \<Rightarrow> db \<times> (error + bool)" where
  "update_row d t row_dict =
     (case db_getitem d (table_name t) of
        Inl e \<Rightarrow> (d, Inl e)
      | Inr tb \<Rightarrow>
         (case map_of row_dict ''id'' of
            None \<Rightarrow> (d, Inl (KeyError ''id''))
          | Some key \<Rightarrow>
             (case table_call tb key of
                None \<Rightarrow> (d, Inr False)
              | Some (k, db_row) \<Rightarrow>
                 (let payload =
                    (if remove_missing_fields t
                     then (case null_fill row_dict (map fst db_row) of
                             None \<Rightarrow> row_dict
                           | Some new_row_dict \<Rightarrow> new_row_dict)
                     else row_dict)
                  in (update_record d (table_name t) tb k payload, Inr True)))))"

section \<open>Sync and bulk sync\<close>

definition sync_ctx ::
  "pyenv \<Rightarrow> sync_fn \<times> bulk_fn \<Rightarrow> jsontype list \<Rightarrow> db \<Rightarrow> jsontype \<Rightarrow> Context
     \<Rightarrow> db \<times> (error + pydict)" where
  "sync_ctx E ch reg d t ctx =
     (let current_fields = fields_by_name d t;
          missing_fields = find_extra_types current_fields [] (data ctx)
      in case redefine_with_missing_fields d reg t missing_fields of
           (d1, Inl e) \<Rightarrow> (d1, Inl e)
         | (d1, Inr u) \<Rightarrow>
            (case create_row_dict E ch reg d1 t ctx of
               (d2, Inl e) \<Rightarrow> (d2, Inl e)
             | (d2, Inr row_dict) \<Rightarrow>
                (case update_row d2 t row_dict of
                   (d3, Inl e) \<Rightarrow> (d3, Inl e)
                 | (d3, Inr found) \<Rightarrow>
                    if found then (d3, Inr row_dict)
                    else
                      (case table_insert d3 (table_name t) row_dict of
                         (d4, Inl e) \<Rightarrow> (d4, Inl e)
                       | (d4, Inr u') \<Rightarrow> (d4, Inr row_dict)))))"

text \<open>
  The second loop of \<open>_bulk_sync\<close>, with \<open>bulk_insert_row_dicts\<close> and \<open>all_row_dicts\<close>.
\<close>

fun bulk_loop ::
  "pyenv \<Rightarrow> sync_fn \<times> bulk_fn \<Rightarrow> jsontype list \<Rightarrow> jsontype \<Rightarrow> Context \<Rightarrow> nat \<Rightarrow> val list \<Rightarrow> db
     \<Rightarrow> pydict list \<times> pydict list \<Rightarrow> db \<times> (error + pydict list \<times> pydict list)" where
  "bulk_loop E ch reg t ctx i [] d acc = (d, Inr acc)"
| "bulk_loop E ch reg t ctx i (obj # objs) d (bulk_insert_row_dicts, all_row_dicts) =
     (case AttrDict obj of
        Inl e \<Rightarrow> (d, Inl e)
      | Inr dat \<Rightarrow>
         (case create_row_dict E ch reg d t (ctx\<lparr>index := int i, data := dat\<rparr>) of
            (d1, Inl e) \<Rightarrow> (d1, Inl e)
          | (d1, Inr row_dict) \<Rightarrow>
             (case update_row d1 t row_dict of
                (d2, Inl e) \<Rightarrow> (d2, Inl e)
              | (d2, Inr found) \<Rightarrow>
                 bulk_loop E ch reg t ctx (Suc i) objs d2
                   (if found then bulk_insert_row_dicts
                    else bulk_insert_row_dicts @ [row_dict],
                    all_row_dicts @ [row_dict]))))"

definition bulk_sync_ctx ::
  "pyenv \<Rightarrow> sync_fn \<times> bulk_fn \<Rightarrow> jsontype list \<Rightarrow> db \<Rightarrow> jsontype \<Rightarrow> Context
     \<Rightarrow> db \<times> (error + pydict list)" where
  "bulk_sync_ctx E ch reg d t ctx =
     (let current_fields = fields_by_name d t in
      case find_extra_types_seq current_fields [] (seq ctx) of
        Inl e \<Rightarrow> (d, Inl e)
      | Inr missing_fields \<Rightarrow>
         (case redefine_with_missing_fields d reg t missing_fields of
            (d1, Inl e) \<Rightarrow> (d1, Inl e)
          | (d1, Inr u) \<Rightarrow>
             (case bulk_loop E ch reg t ctx 0 (seq ctx) d1 ([], []) of
                (d2, Inl e) \<Rightarrow> (d2, Inl e)
              | (d2, Inr (bulk_insert_row_dicts, all_row_dicts)) \<Rightarrow>
                 if bulk_insert_row_dicts \<noteq> [] then
                   (case table_bulk_insert d2 (table_name t) bulk_insert_row_dicts of
                      (d3, Inl e) \<Rightarrow> (d3, Inl e)
                    | (d3, Inr u') \<Rightarrow> (d3, Inr all_row_dicts))
                 else (d2, Inr all_row_dicts))))"

text \<open>
  The recursion of \<open>_sync\<close> and \<open>_bulk_sync\<close> through \<open>_create_row_dict\<close> follows the
  nesting of the document. \<open>nested E reg n\<close> are the two functions for documents nested at
  most \<open>n\<close> references deep; a deeper one ends in \<open>OutOfFuel\<close>.
\<close>

fun nested :: "pyenv \<Rightarrow> jsontype list \<Rightarrow> nat \<Rightarrow> sync_fn \<times> bulk_fn" where
  "nested E reg 0 = ((\<lambda>d t ctx. (d, Inl OutOfFuel)), (\<lambda>d t ctx. (d, Inl OutOfFuel)))"
| "nested E reg (Suc n) =
     (sync_ctx E (nested E reg n) reg, bulk_sync_ctx E (nested E reg n) reg)"

text \<open>The entry points \<open>JSONType.sync\<close> and \<open>JSONType.bulk_sync\<close>.\<close>

definition sync ::
  "pyenv \<Rightarrow> jsontype list \<Rightarrow> nat \<Rightarrow> db \<Rightarrow> jsontype \<Rightarrow> val \<Rightarrow> bool \<Rightarrow> db \<times> (error + pydict)" where
  "sync E reg n d t obj p =
     (case AttrDict obj of
        Inl e \<Rightarrow> (d, Inl e)
      | Inr dat \<Rightarrow> sync_ctx E (nested E reg n) reg d t (new_context None (Some dat) [] p))"


section \<open>Definitions for the properties\<close>

subsection \<open>Type inference, in the words of the specification\<close>





subsection \<open>Example types and stores\<close>

definition Person :: jsontype where
  "Person = \<lparr>name = ''Person'', table_name = ''person'', remove_missing_fields = True,
     type_fields = [JSONField ''name'' ''string'', JSONField ''age'' ''integer'']\<rparr>"

definition env0 :: pyenv where
  "env0 = \<lparr>strptime = (\<lambda>v fmt. Inl ValueError),
     dateutil_parse = (\<lambda>v kw. if v = VStr ''1970-01-01T23:50:00+00:00''
                               then Inr \<lparr>wall = 1430, tzinfo = Some 0\<rparr> else Inl ValueError),
     tzlocal = (\<lambda>utc. 120),
     long_of_string = (\<lambda>s. None)\<rparr>"

definition Event :: jsontype where
  "Event = \<lparr>name = ''Event'', table_name = ''event'', remove_missing_fields = True,
     type_fields = [JSONField ''at'' ''datetime'', JSONField ''day'' ''date'']\<rparr>"

definition db_event :: db where
  "db_event = \<lparr>tables = [(''event'',
       \<lparr>columns = [(''id'', ''id''), (''at'', ''datetime''), (''day'', ''date'')], rows = []\<rparr>)],
     json_type_registry = [], calls = []\<rparr>"

definition event_doc :: val where
  "event_doc = VDict [(''id'', VInt 1), (''at'', VStr ''1970-01-01T23:50:00+00:00''),
     (''day'', VStr ''1970-01-01T23:50:00+00:00'')]"

definition person_doc :: pydict where
  "person_doc = [(''id'', VInt 1), (''name'', VStr ''Bob''), (''age'', VInt 31)]"

definition db_person1 :: db where
  "db_person1 = \<lparr>tables = [(''person'',
       \<lparr>columns = [(''id'', ''id''), (''name'', ''string''), (''age'', ''integer''),
                   (''nickname'', ''string'')],
        rows = [(1, [(''name'', VStr ''Ann''), (''age'', VInt 30), (''nickname'', VStr ''A'')])]\<rparr>)],
     json_type_registry = [(''Person'', ''nickname'', ''string'')], calls = []\<rparr>"


definition update_payload :: "jsontype \<Rightarrow> table \<Rightarrow> pydict \<Rightarrow> pydict" where
  "update_payload t tb row_dict =
     (if remove_missing_fields t
      then (case null_fill row_dict (table_fields tb) of
              None \<Rightarrow> row_dict
            | Some new_row_dict \<Rightarrow> new_row_dict)
      else row_dict)"

definition ctx_person :: Context where
  "ctx_person = new_context None (Some person_doc) [] False"

subsection \<open>Reading the store\<close>

text \<open>
  The value of column \<open>c\<close> of the row \<open>k\<close> of table \<open>n\<close>, as a select returns it; whether a
  row \<open>k\<close> is stored; and the key \<open>row_dict['id']\<close> of a built row.
\<close>

definition stored :: "db \<Rightarrow> string \<Rightarrow> int \<Rightarrow> string \<Rightarrow> val option" where
  "stored d n k c =
     (case map_of (tables d) n of
        None \<Rightarrow> None
      | Some tb \<Rightarrow> (case select_row tb k of None \<Rightarrow> None | Some r \<Rightarrow> map_of r c))"

definition row_stored :: "db \<Rightarrow> string \<Rightarrow> int \<Rightarrow> bool" where
  "row_stored d n k =
     (case map_of (tables d) n of None \<Rightarrow> False | Some tb \<Rightarrow> map_of (rows tb) k \<noteq> None)"





subsection \<open>Types without references\<close>



text \<open>The columns of a table of the store.\<close>

definition table_columns :: "db \<Rightarrow> string \<Rightarrow> (string \<times> string) list option" where
  "table_columns d n = map_option columns (map_of (tables d) n)"







subsection \<open>The calls of a batch\<close>




subsection \<open>Example types with references\<close>










subsection \<open>List references, in the words of the specification\<close>





section \<open>Type inference\<close>



















section \<open>Temporal fields\<close>

text \<open>
  Claim C2. With the local zone two hours east of UTC, the string
  \<open>1970-01-01T23:50:00+00:00\<close> parses to 23:50 at offset 0, which is 01:50 of the next
  day in local time. The row built for a \<open>datetime\<close> and a \<open>date\<close> field holds the parsed
  reading unchanged (23:50 at offset 0, and day 0), not the local one: the result of
  \<open>astimezone\<close> is dropped.
\<close>

theorem temporal_value_not_normalized:
  "snd (sync env0 [Event] 0 db_event Event event_doc False) =
     Inr [(''id'', VInt 1), (''at'', VDatetime \<lparr>wall = 1430, tzinfo = Some 0\<rparr>),
          (''day'', VDate 0)]
   \<and> astimezone (tzlocal env0) \<lparr>wall = 1430, tzinfo = Some 0\<rparr>
       = Inr \<lparr>wall = 1550, tzinfo = Some 120\<rparr>
   \<and> date_of \<lparr>wall = 1550, tzinfo = Some 120\<rparr> = 1"
  by code_simp

section \<open>The shape of a sync\<close>

lemma update_row_not_found:
  "update_row d t row = (d', Inr False) \<Longrightarrow> d' = d"
  by (auto simp: update_row_def Let_def split: sum.splits option.splits prod.splits)

lemma sync_ctx_Inr:
  assumes "sync_ctx E ch reg d t ctx = (d', Inr row)"
  obtains d1 d2 where
    "redefine_with_missing_fields d reg t
       (find_extra_types (fields_by_name d t) [] (data ctx)) = (d1, Inr ())"
    "create_row_dict E ch reg d1 t ctx = (d2, Inr row)"
    "update_row d2 t row = (d', Inr True) \<or>
     (update_row d2 t row = (d2, Inr False) \<and> table_insert d2 (table_name t) row = (d', Inr ()))"
  using assms
  by (auto simp: sync_ctx_def Let_def split: sum.splits prod.splits if_splits
      dest: update_row_not_found)

subsection \<open>The keys of a built row\<close>

lemma passthrough_keys:
  "passthrough d t dat fns row = Inr row' \<Longrightarrow>
   set (map fst row') \<subseteq> set (map fst row) \<union> set fns"
proof (induction fns arbitrary: row)
  case Nil
  then show ?case by simp
next
  case (Cons fn fns)
  have u: "\<And>k v. set (map fst (AList.update k v row)) = insert k (set (map fst row))"
    by (simp add: dom_update)
  from Cons.prems consider
      "passthrough d t dat fns row = Inr row'"
    | v where "passthrough d t dat fns (AList.update fn v row) = Inr row'"
    by (auto split: if_splits option.splits sum.splits)
  then show ?case
  proof cases
    case 1
    from Cons.IH [OF 1] show ?thesis by auto
  next
    case 2
    from Cons.IH [OF 2] show ?thesis unfolding u by auto
  qed
qed

lemma field_step_row:
  "field_step E ch reg ctx f d row = (d', Inr row') \<Longrightarrow>
   row' = row \<or> (\<exists>v. row' = AList.update (column_name f) v row)"
  by (auto simp: field_step_def Let_def
      split: option.splits compute_fn.splits if_splits sum.splits prod.splits)

lemma keys_update: "set (map fst (AList.update k v row)) = insert k (set (map fst row))"
  by (simp add: dom_update)

lemma field_step_keys:
  assumes "field_step E ch reg ctx f d row = (d', Inr row')"
  shows "set (map fst row') \<subseteq> insert (column_name f) (set (map fst row))"
  using field_step_row [OF assms] keys_update [of "column_name f" _ row] by auto

lemma field_loop_keys:
  "field_loop E ch reg ctx fs d row = (d', Inr row') \<Longrightarrow>
   set (map fst row') \<subseteq> set (map fst row) \<union> set (map column_name fs)"
proof (induction fs arbitrary: d row)
  case Nil
  then show ?case by simp
next
  case (Cons f fs)
  from Cons.prems obtain d1 row1 where
    s: "field_step E ch reg ctx f d row = (d1, Inr row1)" and
    l: "field_loop E ch reg ctx fs d1 row1 = (d', Inr row')"
    by (auto split: prod.splits sum.splits)
  from field_step_keys [OF s] Cons.IH [OF l] show ?case by simp blast
qed

lemma create_row_dict_keys:
  assumes "create_row_dict E ch reg d t ctx = (d', Inr row)"
  shows "set (map fst row) \<subseteq> set (map fst (data ctx)) \<union> set (map column_name (type_fields t))"
proof -
  from assms obtain row0 where
    p: "passthrough d t (data ctx) (map fst (data ctx)) [] = Inr row0" and
    l: "field_loop E ch reg ctx (type_fields t) d row0 = (d', Inr row)"
    by (auto simp: create_row_dict_def split: sum.splits)
  from passthrough_keys [OF p] field_loop_keys [OF l] show ?thesis by simp blast
qed


subsection \<open>The payload of an update\<close>





lemma select_row_keys: "select_row tb k = Some r \<Longrightarrow> map fst r = table_fields tb"
  by (auto simp: select_row_def comp_def split: option.splits)

lemma update_row_found:
  assumes "update_row d t row = (d', Inr True)"
  obtains tb key k db_row where
    "db_getitem d (table_name t) = Inr tb" "map_of row ''id'' = Some key"
    "key_of key = Some k" "select_row tb k = Some db_row"
    "d' = update_record d (table_name t) tb k (update_payload t tb row)"
proof -
  from assms obtain tb key k db_row where
    a: "db_getitem d (table_name t) = Inr tb" "map_of row ''id'' = Some key"
       "table_call tb key = Some (k, db_row)"
    and b: "d' = update_record d (table_name t) tb k
               (if remove_missing_fields t
                then (case null_fill row (map fst db_row) of None \<Rightarrow> row | Some r \<Rightarrow> r)
                else row)"
    by (auto simp: update_row_def Let_def split: sum.splits option.splits prod.splits)
  from a(3) have c: "key_of key = Some k" "select_row tb k = Some db_row"
    by (auto simp: table_call_def split: option.splits)
  from b select_row_keys [OF c(2)]
  have "d' = update_record d (table_name t) tb k (update_payload t tb row)"
    by (simp add: update_payload_def)
  with a c show ?thesis using that by blast
qed

lemma calls_update_record:
  "calls (update_record d n tb k payload) = calls d @ [Update_record n k payload]"
  by (simp add: update_record_def Let_def)

lemma calls_table_insert:
  "table_insert d n r = (d', Inr u) \<Longrightarrow> calls d' = calls d @ [Insert n r]"
  by (auto simp: table_insert_def Let_def split: sum.splits)

subsection \<open>The rows of a batch\<close>

lemma bulk_loop_rows:
  "bulk_loop E ch reg t ctx i objs d (ins, done) = (d', Inr (ins', done')) \<Longrightarrow>
   \<exists>new. done' = done @ new \<and>
     list_all2 (\<lambda>row obj. \<exists>dat j dA dB. AttrDict obj = Inr dat \<and>
         create_row_dict E ch reg dA t (ctx\<lparr>index := j, data := dat\<rparr>) = (dB, Inr row)) new objs"
proof (induction objs arbitrary: i d ins "done")
  case Nil
  then show ?case by simp
next
  case (Cons obj objs)
  from Cons.prems obtain dat d1 row d2 found where
    a: "AttrDict obj = Inr dat"
       "create_row_dict E ch reg d t (ctx\<lparr>index := int i, data := dat\<rparr>) = (d1, Inr row)"
    and l: "bulk_loop E ch reg t ctx (Suc i) objs d2
          (if found then ins else ins @ [row], done @ [row]) = (d', Inr (ins', done'))"
    by (auto split: sum.splits prod.splits)
  from Cons.IH [OF l] obtain new where
    n: "done' = (done @ [row]) @ new"
       "list_all2 (\<lambda>row obj. \<exists>dat j dA dB. AttrDict obj = Inr dat \<and>
         create_row_dict E ch reg dA t (ctx\<lparr>index := j, data := dat\<rparr>) = (dB, Inr row)) new objs"
    by blast
  from a have "\<exists>dat j dA dB. AttrDict obj = Inr dat \<and>
         create_row_dict E ch reg dA t (ctx\<lparr>index := j, data := dat\<rparr>) = (dB, Inr row)"
    by blast
  with n show ?case
    by (intro exI [of _ "row # new"]) simp
qed

lemma bulk_sync_ctx_rows:
  assumes "bulk_sync_ctx E ch reg d t ctx = (d', Inr rws)"
  shows "list_all2 (\<lambda>row obj. \<exists>dat j dA dB. AttrDict obj = Inr dat \<and>
         create_row_dict E ch reg dA t (ctx\<lparr>index := j, data := dat\<rparr>) = (dB, Inr row))
       rws (seq ctx)"
proof -
  from assms obtain d1 d2 ins where
    "bulk_loop E ch reg t ctx 0 (seq ctx) d1 ([], []) = (d2, Inr (ins, rws))"
    by (auto simp: bulk_sync_ctx_def Let_def split: sum.splits prod.splits if_splits)
  from bulk_loop_rows [OF this] show ?thesis by simp
qed

section \<open>The row a sync returns\<close>

text \<open>
  Claim C10. The row \<open>sync\<close> returns is the row \<open>_create_row_dict\<close> built: its keys are
  keys of the document or columns of declared fields. When the row was found and
  updated, \<open>update_record\<close> received the payload with the nulls for the missing columns,
  and the returned row is still the built one. Every row \<open>bulk_sync\<close> returns is the row
  built for the document at its position, with the same bound on its keys.
\<close>

theorem returned_row_is_built_row:
  "(sync_ctx E ch reg d t ctx = (d', Inr row) \<longrightarrow>
      (\<exists>d1 d2. create_row_dict E ch reg d1 t ctx = (d2, Inr row) \<and>
         ((\<exists>tb k. db_getitem d2 (table_name t) = Inr tb \<and>
             calls d' = calls d2 @ [Update_record (table_name t) k (update_payload t tb row)])
          \<or> calls d' = calls d2 @ [Insert (table_name t) row])) \<and>
      set (map fst row) \<subseteq> set (map fst (data ctx)) \<union> set (map column_name (type_fields t)))
   \<and> (bulk_sync_ctx E ch reg d t ctx = (d'', Inr rws) \<longrightarrow>
      list_all2 (\<lambda>row obj. \<exists>dat j dA dB. AttrDict obj = Inr dat \<and>
         create_row_dict E ch reg dA t (ctx\<lparr>index := j, data := dat\<rparr>) = (dB, Inr row) \<and>
         set (map fst row) \<subseteq> set (map fst dat) \<union> set (map column_name (type_fields t)))
       rws (seq ctx))"
proof (intro conjI impI)
  assume a: "sync_ctx E ch reg d t ctx = (d', Inr row)"
  then obtain d1 d2 where
    c: "create_row_dict E ch reg d1 t ctx = (d2, Inr row)" and
    u: "update_row d2 t row = (d', Inr True) \<or>
     (update_row d2 t row = (d2, Inr False) \<and> table_insert d2 (table_name t) row = (d', Inr ()))"
    by (rule sync_ctx_Inr)
  from u have "(\<exists>tb k. db_getitem d2 (table_name t) = Inr tb \<and>
             calls d' = calls d2 @ [Update_record (table_name t) k (update_payload t tb row)])
          \<or> calls d' = calls d2 @ [Insert (table_name t) row]"
  proof
    assume "update_row d2 t row = (d', Inr True)"
    then show ?thesis
      by (rule update_row_found) (auto simp: calls_update_record)
  next
    assume "update_row d2 t row = (d2, Inr False) \<and>
      table_insert d2 (table_name t) row = (d', Inr ())"
    then show ?thesis by (simp add: calls_table_insert)
  qed
  with c show "\<exists>d1 d2. create_row_dict E ch reg d1 t ctx = (d2, Inr row) \<and>
         ((\<exists>tb k. db_getitem d2 (table_name t) = Inr tb \<and>
             calls d' = calls d2 @ [Update_record (table_name t) k (update_payload t tb row)])
          \<or> calls d' = calls d2 @ [Insert (table_name t) row])"
    by blast
  from create_row_dict_keys [OF c]
  show "set (map fst row) \<subseteq> set (map fst (data ctx)) \<union> set (map column_name (type_fields t))" .
next
  assume "bulk_sync_ctx E ch reg d t ctx = (d'', Inr rws)"
  from bulk_sync_ctx_rows [OF this]
  have "list_all2 (\<lambda>row obj. \<exists>dat j dA dB. AttrDict obj = Inr dat \<and>
         create_row_dict E ch reg dA t (ctx\<lparr>index := j, data := dat\<rparr>) = (dB, Inr row))
       rws (seq ctx)" .
  then show "list_all2 (\<lambda>row obj. \<exists>dat j dA dB. AttrDict obj = Inr dat \<and>
         create_row_dict E ch reg dA t (ctx\<lparr>index := j, data := dat\<rparr>) = (dB, Inr row) \<and>
         set (map fst row) \<subseteq> set (map fst dat) \<union> set (map column_name (type_fields t)))
       rws (seq ctx)"
  proof (rule list_all2_mono)
    fix row obj
    assume "\<exists>dat j dA dB. AttrDict obj = Inr dat \<and>
         create_row_dict E ch reg dA t (ctx\<lparr>index := j, data := dat\<rparr>) = (dB, Inr row)"
    then obtain dat j dA dB where
      x: "AttrDict obj = Inr dat"
         "create_row_dict E ch reg dA t (ctx\<lparr>index := j, data := dat\<rparr>) = (dB, Inr row)"
      by blast
    from create_row_dict_keys [OF x(2)] x
    show "\<exists>dat j dA dB. AttrDict obj = Inr dat \<and>
         create_row_dict E ch reg dA t (ctx\<lparr>index := j, data := dat\<rparr>) = (dB, Inr row) \<and>
         set (map fst row) \<subseteq> set (map fst dat) \<union> set (map column_name (type_fields t))"
      by auto
  qed
qed


theorem returned_row_is_built_row_witness:
  "snd (sync_ctx env0 (nested env0 [Person] 0) [Person] db_person1 Person ctx_person)
     = Inr person_doc
   \<and> (\<exists>d1 d2. create_row_dict env0 (nested env0 [Person] 0) [Person] d1 Person ctx_person
           = (d2, Inr person_doc) \<and>
         ((\<exists>tb k. db_getitem d2 (table_name Person) = Inr tb \<and>
             calls (fst (sync_ctx env0 (nested env0 [Person] 0) [Person] db_person1 Person
                 ctx_person))
               = calls d2 @ [Update_record (table_name Person) k
                   (update_payload Person tb person_doc)])
          \<or> calls (fst (sync_ctx env0 (nested env0 [Person] 0) [Person] db_person1 Person
                 ctx_person))
               = calls d2 @ [Insert (table_name Person) person_doc]))
   \<and> last (calls (fst (sync_ctx env0 (nested env0 [Person] 0) [Person] db_person1 Person
          ctx_person)))
       = Update_record ''person'' 1 (person_doc @ [(''nickname'', VNone)])"
proof -
  let ?r = "sync_ctx env0 (nested env0 [Person] 0) [Person] db_person1 Person ctx_person"
  have h: "snd ?r = Inr person_doc" by code_simp
  have l: "last (calls (fst ?r))
       = Update_record ''person'' 1 (person_doc @ [(''nickname'', VNone)])"
    by code_simp
  from h have "?r = (fst ?r, Inr person_doc)" by (simp add: prod_eq_iff)
  with returned_row_is_built_row
    [of env0 "nested env0 [Person] 0" "[Person]" db_person1 Person ctx_person "fst ?r"
       person_doc]
  have "\<exists>d1 d2. create_row_dict env0 (nested env0 [Person] 0) [Person] d1 Person ctx_person
           = (d2, Inr person_doc) \<and>
         ((\<exists>tb k. db_getitem d2 (table_name Person) = Inr tb \<and>
             calls (fst ?r) = calls d2 @ [Update_record (table_name Person) k
                   (update_payload Person tb person_doc)])
          \<or> calls (fst ?r) = calls d2 @ [Insert (table_name Person) person_doc])"
    by blast
  with h l show ?thesis by blast
qed

section \<open>Rows are dicts\<close>







section \<open>What an update writes\<close>


lemma stored_eq:
  "map_of (tables d) n = Some tb \<Longrightarrow> map_of (rows tb) k = Some r \<Longrightarrow>
   stored d n k c =
   (if c \<in> set (table_fields tb)
    then Some (if c = ''id'' then VLong k else (case map_of r c of None \<Rightarrow> VNone | Some v \<Rightarrow> v))
    else None)"
  by (simp add: stored_def select_row_def map_of_map_restrict restrict_map_def)








section \<open>Fields skipped in a partial sync\<close>




section \<open>Missing columns on update\<close>




section \<open>Schema extension\<close>








lemma redefine_table_Inl: "redefine_table d reg t = (d', Inl e) \<Longrightarrow> d' = d"
  by (auto simp: redefine_table_def Let_def split: sum.splits)








section \<open>Row construction without references\<close>







section \<open>Inserting a row\<close>






section \<open>Keys the document passes through\<close>








section \<open>Syncing a new document with a new field\<close>




section \<open>Syncing the same document twice\<close>








lemma stored_None_columns:
  "row_stored d n k \<Longrightarrow>
   stored d n k c \<noteq> None \<longleftrightarrow>
     table_columns d n \<noteq> None \<and> c \<in> set (map fst (the (table_columns d n)))"
proof -
  assume "row_stored d n k"
  then obtain tb r where a: "map_of (tables d) n = Some tb" "map_of (rows tb) k = Some r"
    by (auto simp: row_stored_def split: option.splits)
  have "table_columns d n = Some (columns tb)" using a(1) by (simp add: table_columns_def)
  then show ?thesis
    unfolding stored_eq [OF a] by (simp add: table_fields_def)
qed






section \<open>Bulk sync\<close>














section \<open>Reference fields\<close>












section \<open>List-reference fields\<close>














end
